theory Spec2Isabelle
  imports Complex_Main "HOL-Library.Word"
begin

unbundle bit_operations_syntax

section \<open>Data model\<close>

text \<open>
  The two scripts \<^verbatim>\<open>scripts/wake_listener.py\<close> (listener mode) and
  \<^verbatim>\<open>scripts/wake_score_stdin.py\<close> (scoring mode) read raw PCM audio from standard
  input in blocks of 2560 bytes, convert each block to 1280 normalised samples, hand it to
  an external keyword scorer and either print \<^verbatim>\<open>WAKE\<close> lines (debounced) or one
  final \<^verbatim>\<open>MAX <score>\<close> line.

  Python floats are modelled as \<open>real\<close>. For the sample conversion this is exact: every
  16-bit integer is a float32, and dividing by \<open>32768 = 2 ^ 15\<close> only changes the
  exponent.
\<close>

type_synonym byte = "8 word"
type_synonym int16 = "16 word"

text \<open>
  The exceptions the scripts tell apart. \<open>BrokenPipeError\<close> is a subclass of
  \<open>Exception\<close>, \<open>KeyboardInterrupt\<close> is not; \<open>Exception\<close> stands for every other
  subclass of \<open>Exception\<close>. Each carries the text that \<^verbatim>\<open>str(e)\<close> gives.
\<close>

datatype exn = BrokenPipeError string | KeyboardInterrupt string | Exception string

fun is_Exception :: "exn \<Rightarrow> bool" where
  "is_Exception (BrokenPipeError _) = True"
| "is_Exception (KeyboardInterrupt _) = False"
| "is_Exception (Exception _) = True"

text \<open>The handler \<^verbatim>\<open>except (BrokenPipeError, KeyboardInterrupt)\<close>.\<close>

fun is_interruption :: "exn \<Rightarrow> bool" where
  "is_interruption (BrokenPipeError _) = True"
| "is_interruption (KeyboardInterrupt _) = True"
| "is_interruption (Exception _) = False"

fun str :: "exn \<Rightarrow> string" where
  "str (BrokenPipeError m) = m"
| "str (KeyboardInterrupt m) = m"
| "str (Exception m) = m"

text \<open>
  A line on standard output: the literal \<^verbatim>\<open>WAKE\<close>, or \<^verbatim>\<open>MAX\<close> followed by a
  float. The literal line \<^verbatim>\<open>MAX 0.0\<close> is \<open>MAX_line 0\<close>.
\<close>

datatype out_line = WAKE | MAX_line real

text \<open>
  How the process ends: \<open>Exit n\<close> is \<^verbatim>\<open>sys.exit(n)\<close>, or \<open>Exit 0\<close> when
  \<^verbatim>\<open>main\<close> returns; \<open>Traceback e\<close> is an exception that leaves \<^verbatim>\<open>main\<close>
  uncaught, for which the interpreter prints a stack trace on standard error and ends with
  a non-zero status.
\<close>

datatype exit_status = Exit nat | Traceback exn

record outcome =
  stdout :: "out_line list"
  stderr :: "string list"
  status :: exit_status

text \<open>
  The effects of listener mode that a claim about time needs in order: every reading of
  \<^verbatim>\<open>time.time()\<close> and every line printed.
\<close>

datatype event = ClockRead real | Print out_line

fun stdout_of :: "event list \<Rightarrow> out_line list" where
  "stdout_of [] = []"
| "stdout_of (ClockRead t # es) = stdout_of es"
| "stdout_of (Print l # es) = l # stdout_of es"

text \<open>
  The world outside the scripts. \<open>load_model\<close> is \<^verbatim>\<open>Model([model_path])\<close>: it raises,
  or gives the keys of \<^verbatim>\<open>model.models\<close> in order and the scorer's initial internal
  state. \<open>predict\<close> is \<^verbatim>\<open>model.predict\<close>: it raises, or gives the dictionary of
  predictions and the scorer's next internal state. \<open>clock n\<close> is what the \<open>n\<close>-th
  call of \<^verbatim>\<open>time.time()\<close> returns. \<open>stdout_broken n\<close> holds when printing a line
  after \<open>n\<close> lines have been written raises \<open>BrokenPipeError\<close>.
\<close>

record 'm env =
  load_model :: "string \<Rightarrow> exn + (string list \<times> 'm)"
  predict :: "'m \<Rightarrow> real list \<Rightarrow> exn + ((string \<rightharpoonup> real) \<times> 'm)"
  clock :: "nat \<Rightarrow> real"
  stdout_broken :: "nat \<Rightarrow> bool"

text \<open>
  Standard input is the list of segments in which the data arrives; an element \<open>Inl e\<close>
  is a read that raises \<open>e\<close> (an interrupt while blocked). A pipe or file with content
  \<open>bs\<close> is the single segment \<open>[Inr bs]\<close>. \<^verbatim>\<open>sys.stdin.buffer.read(n)\<close> returns
  at most \<open>n\<close> bytes of the first segment and leaves the remainder of that segment in
  front; at the end of the input it returns the empty byte string.
\<close>

type_synonym stdin = "(exn + byte list) list"

fun stdin_read :: "nat \<Rightarrow> stdin \<Rightarrow> (exn + byte list) \<times> stdin" where
  "stdin_read n [] = (Inr [], [])"
| "stdin_read n (Inl e # rest) = (Inl e, rest)"
| "stdin_read n (Inr seg # rest) =
     (Inr (take n seg), if n < length seg then Inr (drop n seg) # rest else rest)"

fun stdin_size :: "stdin \<Rightarrow> nat" where
  "stdin_size [] = 0"
| "stdin_size (Inl e # rest) = Suc (stdin_size rest)"
| "stdin_size (Inr seg # rest) = Suc (length seg + stdin_size rest)"

section \<open>Constants of both scripts\<close>

definition chunk_bytes :: nat where
  "chunk_bytes = 2560"

definition threshold :: real where
  "threshold = 0.5"

definition debounce_seconds :: real where
  "debounce_seconds = 2.5"

section \<open>Sample conversion\<close>

text \<open>
  \<^verbatim>\<open>np.frombuffer(raw, dtype=np.int16)\<close> on a little-endian machine: two bytes make
  one sample, low byte first; a buffer of odd length raises \<open>ValueError\<close>.
  \<^verbatim>\<open>samples.astype(np.float32) / 32768.0\<close> is \<open>normalize_samples\<close>.
\<close>

definition le_int16 :: "byte \<Rightarrow> byte \<Rightarrow> int16" where
  "le_int16 lo hi = word_of_nat (unat lo + 256 * unat hi)"

fun int16_pairs :: "byte list \<Rightarrow> int16 list" where
  "int16_pairs (lo # hi # bs) = le_int16 lo hi # int16_pairs bs"
| "int16_pairs _ = []"

definition frombuffer_int16 :: "byte list \<Rightarrow> exn + int16 list" where
  "frombuffer_int16 raw =
     (if odd (length raw)
      then Inl (Exception ''buffer size must be a multiple of element size'')
      else Inr (int16_pairs raw))"

definition normalize_samples :: "int16 list \<Rightarrow> real list" where
  "normalize_samples samples = map (\<lambda>w. real_of_int (sint w) / 32768) samples"

text \<open>\<^verbatim>\<open>predictions.get(model_name, 0.0)\<close>\<close>

definition get_score :: "(string \<rightharpoonup> real) \<Rightarrow> string \<Rightarrow> real" where
  "get_score predictions name = (case predictions name of None \<Rightarrow> 0 | Some v \<Rightarrow> v)"

text \<open>\<^verbatim>\<open>print(line, flush=True)\<close> on standard output, after the lines \<open>out\<close>.\<close>

definition print_stdout :: "'m env \<Rightarrow> out_line list \<Rightarrow> out_line \<Rightarrow> exn + out_line list" where
  "print_stdout W out l =
     (if stdout_broken W (length out) then Inl (BrokenPipeError ''[Errno 32] Broken pipe'')
      else Inr (out @ [l]))"

text \<open>
  \<^verbatim>\<open>model_path = sys.argv[1] if len(sys.argv) > 1 else None\<close>, followed by the test
  \<^verbatim>\<open>if not model_path\<close>, which also rejects the empty string: \<open>None\<close> is a missing
  path.
\<close>

definition model_path_of :: "string list \<Rightarrow> string option" where
  "model_path_of argv =
     (if length argv > 1 \<and> argv ! 1 \<noteq> [] then Some (argv ! 1) else None)"

section \<open>Listener mode\<close>

record 'm listener_state =
  l_model :: 'm
  last_wake :: real
  ticks :: nat
  trace :: "event list"

text \<open>
  The body of the loop for a block \<open>raw\<close> of full size (lines 60 to 69 of
  \<^verbatim>\<open>wake_listener.py\<close>): the new state, and the exception the body raised, if any.
  \<^verbatim>\<open>continue\<close> and the normal end of the body are both \<open>None\<close>. The clock is read
  once in the condition, only when the score has reached the threshold, and once more for
  the assignment to \<^verbatim>\<open>last_wake\<close>.
\<close>

definition listener_frame ::
  "'m env \<Rightarrow> string \<Rightarrow> 'm listener_state \<Rightarrow> byte list \<Rightarrow> 'm listener_state \<times> exn option" where
  "listener_frame W model_name s raw =
     (case frombuffer_int16 raw of
        Inl e \<Rightarrow> (s, Some e)
      | Inr samples \<Rightarrow>
          if length samples \<noteq> 1280 then (s, None)
          else
            (case predict W (l_model s) (normalize_samples samples) of
               Inl e \<Rightarrow> (s, Some e)
             | Inr (predictions, m') \<Rightarrow>
                 let s1 = s\<lparr>l_model := m'\<rparr>;
                     score = get_score predictions model_name
                 in
                   if score \<ge> threshold then
                     (let now = clock W (ticks s1);
                          s2 = s1\<lparr>ticks := ticks s1 + 1,
                                  trace := trace s1 @ [ClockRead now]\<rparr>
                      in
                        if now - last_wake s2 \<ge> debounce_seconds then
                          (let now' = clock W (ticks s2);
                               s3 = s2\<lparr>last_wake := now', ticks := ticks s2 + 1,
                                       trace := trace s2 @ [ClockRead now']\<rparr>
                           in
                             case print_stdout W (stdout_of (trace s3)) WAKE of
                               Inl e \<Rightarrow> (s3, Some e)
                             | Inr _ \<Rightarrow> (s3\<lparr>trace := trace s3 @ [Print WAKE]\<rparr>, None))
                        else (s2, None))
                   else (s1, None)))"

text \<open>
  The \<^verbatim>\<open>while True\<close> loop of \<^verbatim>\<open>wake_listener.py\<close> (lines 56 to 69) on the input
  that is left: the state when the loop is left, and the exception that left it, if any.
\<close>

function listener_loop ::
  "'m env \<Rightarrow> string \<Rightarrow> 'm listener_state \<Rightarrow> stdin \<Rightarrow> 'm listener_state \<times> exn option" where
  "listener_loop W model_name s inp =
     (case stdin_read chunk_bytes inp of
        (Inl e, inp') \<Rightarrow> (s, Some e)
      | (Inr raw, inp') \<Rightarrow>
          if raw = [] \<or> length raw < chunk_bytes then (s, None)
          else
            (case listener_frame W model_name s raw of
               (s', Some e) \<Rightarrow> (s', Some e)
             | (s', None) \<Rightarrow> listener_loop W model_name s' inp'))"
  by pat_completeness auto
termination
proof (relation "measure (\<lambda>(W, model_name, s, inp). stdin_size inp)", goal_cases)
  case 1
  show ?case by simp
next
  case (2 W model_name s inp x y b xa ya)
  then show ?case
    by (cases "(chunk_bytes, inp)" rule: stdin_read.cases) (auto split: if_splits)
qed

declare listener_loop.simps [simp del]

text \<open>
  \<^verbatim>\<open>main\<close> of \<^verbatim>\<open>wake_listener.py\<close>. \<open>deps_ok\<close> says whether importing numpy
  and openwakeword succeeds. The name of the active keyword is the first key of
  \<^verbatim>\<open>model.models\<close>, \<^verbatim>\<open>hey_jeeves\<close> when there is none. The handlers after the
  loop pass over \<open>BrokenPipeError\<close> and \<open>KeyboardInterrupt\<close>, after which
  \<^verbatim>\<open>main\<close> returns, and report every other \<open>Exception\<close>; what neither handler
  takes leaves \<^verbatim>\<open>main\<close>.
\<close>

definition listener_model_name :: "string list \<Rightarrow> string" where
  "listener_model_name keys = (case keys of [] \<Rightarrow> ''hey_jeeves'' | k # _ \<Rightarrow> k)"

definition listener_init :: "'m \<Rightarrow> 'm listener_state" where
  "listener_init m = \<lparr>l_model = m, last_wake = 0, ticks = 0, trace = []\<rparr>"

definition listener_main :: "'m env \<Rightarrow> string list \<Rightarrow> bool \<Rightarrow> stdin \<Rightarrow> outcome" where
  "listener_main W argv deps_ok inp =
     (case model_path_of argv of
        None \<Rightarrow>
          \<lparr>stdout = [],
           stderr = [''WAKE_LISTENER_ERROR: need model path (e.g. scripts/wake_listener.py models/wake/hey_jeeves.onnx)''],
           status = Exit 1\<rparr>
      | Some model_path \<Rightarrow>
          if \<not> deps_ok then
            \<lparr>stdout = [],
             stderr = [''WAKE_LISTENER_ERROR: install openwakeword and numpy: pip install openwakeword onnxruntime numpy''],
             status = Exit 1\<rparr>
          else
            (case load_model W model_path of
               Inl e \<Rightarrow>
                 if is_Exception e then
                   \<lparr>stdout = [],
                    stderr = [''WAKE_LISTENER_ERROR: failed to load model: '' @ str e],
                    status = Exit 1\<rparr>
                 else \<lparr>stdout = [], stderr = [], status = Traceback e\<rparr>
             | Inr (keys, m) \<Rightarrow>
                   (case listener_loop W (listener_model_name keys) (listener_init m) inp of
                      (s, None) \<Rightarrow>
                        \<lparr>stdout = stdout_of (trace s), stderr = [], status = Exit 0\<rparr>
                    | (s, Some e) \<Rightarrow>
                        if is_interruption e then
                          \<lparr>stdout = stdout_of (trace s), stderr = [], status = Exit 0\<rparr>
                        else if is_Exception e then
                          \<lparr>stdout = stdout_of (trace s),
                           stderr = [''WAKE_LISTENER_ERROR: '' @ str e],
                           status = Exit 1\<rparr>
                        else \<lparr>stdout = stdout_of (trace s), stderr = [], status = Traceback e\<rparr>)))"

section \<open>Scoring mode\<close>

record 'm score_state =
  s_model :: 'm
  max_score :: real

text \<open>
  The body of the loop of \<^verbatim>\<open>wake_score_stdin.py\<close> for a block of full size (lines 30
  to 37).
\<close>

definition score_frame ::
  "'m env \<Rightarrow> string \<Rightarrow> 'm score_state \<Rightarrow> byte list \<Rightarrow> 'm score_state \<times> exn option" where
  "score_frame W model_name s raw =
     (case frombuffer_int16 raw of
        Inl e \<Rightarrow> (s, Some e)
      | Inr samples \<Rightarrow>
          if length samples \<noteq> 1280 then (s, None)
          else
            (case predict W (s_model s) (normalize_samples samples) of
               Inl e \<Rightarrow> (s, Some e)
             | Inr (pred, m') \<Rightarrow>
                 let s1 = s\<lparr>s_model := m'\<rparr>;
                     score = get_score pred model_name
                 in
                   if score > max_score s1 then (s1\<lparr>max_score := score\<rparr>, None)
                   else (s1, None)))"

text \<open>The \<^verbatim>\<open>while True\<close> loop of \<^verbatim>\<open>wake_score_stdin.py\<close> (lines 26 to 37).\<close>

function score_loop ::
  "'m env \<Rightarrow> string \<Rightarrow> 'm score_state \<Rightarrow> stdin \<Rightarrow> 'm score_state \<times> exn option" where
  "score_loop W model_name s inp =
     (case stdin_read chunk_bytes inp of
        (Inl e, inp') \<Rightarrow> (s, Some e)
      | (Inr raw, inp') \<Rightarrow>
          if raw = [] \<or> length raw < chunk_bytes then (s, None)
          else
            (case score_frame W model_name s raw of
               (s', Some e) \<Rightarrow> (s', Some e)
             | (s', None) \<Rightarrow> score_loop W model_name s' inp'))"
  by pat_completeness auto
termination
proof (relation "measure (\<lambda>(W, model_name, s, inp). stdin_size inp)", goal_cases)
  case 1
  show ?case by simp
next
  case (2 W model_name s inp x y b xa ya)
  then show ?case
    by (cases "(chunk_bytes, inp)" rule: stdin_read.cases) (auto split: if_splits)
qed

declare score_loop.simps [simp del]

text \<open>
  \<^verbatim>\<open>main\<close> of \<^verbatim>\<open>wake_score_stdin.py\<close>, entered after the imports at the top of the
  script have succeeded. Nothing here is inside a \<^verbatim>\<open>try\<close> except the construction
  of the model: \<^verbatim>\<open>list(model.models.keys())[0]\<close> raises \<open>IndexError\<close> on a model
  without keys, and whatever the loop or a \<^verbatim>\<open>print\<close> raises leaves \<^verbatim>\<open>main\<close>.
\<close>

definition score_init :: "'m \<Rightarrow> 'm score_state" where
  "score_init m = \<lparr>s_model = m, max_score = 0\<rparr>"

definition score_exit :: "'m env \<Rightarrow> outcome" where
  "score_exit W =
     (case print_stdout W [] (MAX_line 0) of
        Inl e \<Rightarrow> \<lparr>stdout = [], stderr = [], status = Traceback e\<rparr>
      | Inr out \<Rightarrow> \<lparr>stdout = out, stderr = [], status = Exit 1\<rparr>)"

definition score_main :: "'m env \<Rightarrow> string list \<Rightarrow> stdin \<Rightarrow> outcome" where
  "score_main W argv inp =
     (case model_path_of argv of
        None \<Rightarrow> score_exit W
      | Some model_path \<Rightarrow>
          (case load_model W model_path of
             Inl e \<Rightarrow>
               if is_Exception e then score_exit W
               else \<lparr>stdout = [], stderr = [], status = Traceback e\<rparr>
           | Inr (keys, m) \<Rightarrow>
               (case keys of
                  [] \<Rightarrow>
                    \<lparr>stdout = [], stderr = [],
                     status = Traceback (Exception ''list index out of range'')\<rparr>
                | model_name # _ \<Rightarrow>
                    (case score_loop W model_name (score_init m) inp of
                       (s, Some e) \<Rightarrow> \<lparr>stdout = [], stderr = [], status = Traceback e\<rparr>
                     | (s, None) \<Rightarrow>
                         (case print_stdout W [] (MAX_line (max_score s)) of
                            Inl e \<Rightarrow> \<lparr>stdout = [], stderr = [], status = Traceback e\<rparr>
                          | Inr out \<Rightarrow> \<lparr>stdout = out, stderr = [], status = Exit 0\<rparr>)))))"

section \<open>Environments for concrete runs\<close>

text \<open>
  A scripted scorer: its state counts the frames it has seen, frame \<open>n\<close> gets the score
  \<open>scores n\<close> for the keyword \<^verbatim>\<open>hey_jeeves\<close>, and every model path loads.
  \<open>quiet_env\<close> scores every frame 0 with a clock that stands still; \<open>unloadable_env\<close> is the same world with a model that fails to load, \<open>crashing_env\<close>
  the same world with a scorer that raises on every frame.
\<close>

definition scripted_env :: "(nat \<Rightarrow> real) \<Rightarrow> (nat \<Rightarrow> real) \<Rightarrow> (nat \<Rightarrow> bool) \<Rightarrow> nat env" where
  "scripted_env scores clk broken =
     \<lparr>load_model = (\<lambda>path. Inr ([''hey_jeeves''], 0)),
      predict = (\<lambda>n frame. Inr ([''hey_jeeves'' \<mapsto> scores n], Suc n)),
      clock = clk,
      stdout_broken = broken\<rparr>"

definition quiet_env :: "nat env" where
  "quiet_env = scripted_env (\<lambda>n. 0) (\<lambda>n. 0) (\<lambda>n. False)"

definition unloadable_env :: "nat env" where
  "unloadable_env = quiet_env\<lparr>load_model := (\<lambda>path. Inl (Exception ''No such file''))\<rparr>"

definition crashing_env :: "nat env" where
  "crashing_env = quiet_env\<lparr>predict := (\<lambda>n frame. Inl (Exception ''inference failed''))\<rparr>"

text \<open>A block of silence: 2560 zero bytes.\<close>

definition silence :: "byte list" where
  "silence = replicate 2560 0"

text \<open>
  A run with a clock: every frame scores 0.6, and the five clock readings are 100, 100
  (first frame), 101 (second frame) and 103, 103 (third frame).
\<close>

definition scenario_clock :: "nat \<Rightarrow> real" where
  "scenario_clock n = (if n < 2 then 100 else if n < 3 then 101 else 103)"

definition scenario_env :: "nat env" where
  "scenario_env = scripted_env (\<lambda>n. 0.6) scenario_clock (\<lambda>n. False)"

section \<open>Notions used in the statements\<close>

text \<open>
  The three states in which the body of the listener's loop can leave \<open>s\<close> after it has
  read the clock: the score reached the threshold but the last wake is too recent
  (\<open>frame_debounced\<close>); \<^verbatim>\<open>last_wake\<close> was assigned and printing raised
  (\<open>frame_stamped\<close>); \<^verbatim>\<open>last_wake\<close> was assigned and \<^verbatim>\<open>WAKE\<close> printed
  (\<open>frame_woken\<close>).
\<close>

definition frame_debounced :: "'m env \<Rightarrow> 'm listener_state \<Rightarrow> 'm \<Rightarrow> 'm listener_state" where
  "frame_debounced W s m' =
     s\<lparr>l_model := m', ticks := Suc (ticks s),
       trace := trace s @ [ClockRead (clock W (ticks s))]\<rparr>"

definition frame_stamped :: "'m env \<Rightarrow> 'm listener_state \<Rightarrow> 'm \<Rightarrow> 'm listener_state" where
  "frame_stamped W s m' =
     s\<lparr>l_model := m', last_wake := clock W (Suc (ticks s)), ticks := Suc (Suc (ticks s)),
       trace := trace s @ [ClockRead (clock W (ticks s)), ClockRead (clock W (Suc (ticks s)))]\<rparr>"

definition frame_woken :: "'m env \<Rightarrow> 'm listener_state \<Rightarrow> 'm \<Rightarrow> 'm listener_state" where
  "frame_woken W s m' =
     s\<lparr>l_model := m', last_wake := clock W (Suc (ticks s)), ticks := Suc (Suc (ticks s)),
       trace := trace s @ [ClockRead (clock W (ticks s)), ClockRead (clock W (Suc (ticks s))),
                           Print WAKE]\<rparr>"

text \<open>The block \<open>raw\<close> is scored in state \<open>s\<close>, with this score and next scorer state.\<close>

definition scored_as ::
  "'m env \<Rightarrow> string \<Rightarrow> 'm listener_state \<Rightarrow> byte list \<Rightarrow> real \<Rightarrow> 'm \<Rightarrow> bool" where
  "scored_as W name s raw score m' \<longleftrightarrow>
     (\<exists>samples p. frombuffer_int16 raw = Inr samples \<and> length samples = 1280
        \<and> predict W (l_model s) (normalize_samples samples) = Inr (p, m') \<and> score = get_score p name)"

text \<open>
  The time of each \<^verbatim>\<open>WAKE\<close> of a trace: the clock reading that precedes it, which is
  the one assigned to \<^verbatim>\<open>last_wake\<close>. \<open>t\<close> is the latest reading before the trace.
\<close>

fun last_clock :: "real \<Rightarrow> event list \<Rightarrow> real" where
  "last_clock t [] = t"
| "last_clock t (ClockRead t' # es) = last_clock t' es"
| "last_clock t (Print l # es) = last_clock t es"

fun wake_times :: "real \<Rightarrow> event list \<Rightarrow> real list" where
  "wake_times t [] = []"
| "wake_times t (ClockRead t' # es) = wake_times t' es"
| "wake_times t (Print WAKE # es) = t # wake_times t es"
| "wake_times t (Print (MAX_line v) # es) = wake_times t es"

text \<open>
  The frames of a stream and their scores, as the running-maximum property speaks of them:
  the stream cut into consecutive blocks of 2560 bytes, what is left at the end dropped, and
  the score of the active keyword for each block, the scorer's state passed from one block
  to the next; \<open>None\<close> when the scorer raises on some block.
\<close>

function stream_frames :: "byte list \<Rightarrow> byte list list" where
  "stream_frames bs =
     (if length bs < chunk_bytes then []
      else take chunk_bytes bs # stream_frames (drop chunk_bytes bs))"
  by pat_completeness auto
termination
  by (relation "measure length") (auto simp: chunk_bytes_def)

declare stream_frames.simps [simp del]

fun frame_scores :: "'m env \<Rightarrow> string \<Rightarrow> 'm \<Rightarrow> byte list list \<Rightarrow> real list option" where
  "frame_scores W name m [] = Some []"
| "frame_scores W name m (f # fs) =
     (case predict W m (normalize_samples (int16_pairs f)) of
        Inl e \<Rightarrow> None
      | Inr (p, m') \<Rightarrow> map_option ((#) (get_score p name)) (frame_scores W name m' fs))"

text \<open>A scorer whose first three frames score 0.2, 0.9 and 0.4.\<close>

definition varied_score :: "nat \<Rightarrow> real" where
  "varied_score n = (if n = 0 then 0.2 else if n = 1 then 0.9 else 0.4)"

definition varied_env :: "nat env" where
  "varied_env = scripted_env varied_score (\<lambda>n. 0) (\<lambda>n. False)"

section \<open>The loops, one read at a time\<close>

lemma listener_loop_Nil [simp]: "listener_loop W name s [] = (s, None)"
  by (simp add: listener_loop.simps [of W name s "[]"])

lemma listener_loop_Inl [simp]: "listener_loop W name s (Inl e # rest) = (s, Some e)"
  by (simp add: listener_loop.simps [of W name s "Inl e # rest"])

lemma listener_loop_Inr:
  "listener_loop W name s (Inr seg # rest) =
     (if length seg < chunk_bytes then (s, None)
      else (case listener_frame W name s (take chunk_bytes seg) of
              (s', Some e) \<Rightarrow> (s', Some e)
            | (s', None) \<Rightarrow>
                listener_loop W name s'
                  (if chunk_bytes < length seg then Inr (drop chunk_bytes seg) # rest else rest)))"
  by (auto simp add: listener_loop.simps [of W name s "Inr seg # rest"] chunk_bytes_def)

lemma score_loop_Nil [simp]: "score_loop W name s [] = (s, None)"
  by (simp add: score_loop.simps [of W name s "[]"])

lemma score_loop_Inl [simp]: "score_loop W name s (Inl e # rest) = (s, Some e)"
  by (simp add: score_loop.simps [of W name s "Inl e # rest"])

lemma score_loop_Inr:
  "score_loop W name s (Inr seg # rest) =
     (if length seg < chunk_bytes then (s, None)
      else (case score_frame W name s (take chunk_bytes seg) of
              (s', Some e) \<Rightarrow> (s', Some e)
            | (s', None) \<Rightarrow>
                score_loop W name s'
                  (if chunk_bytes < length seg then Inr (drop chunk_bytes seg) # rest else rest)))"
  by (auto simp add: score_loop.simps [of W name s "Inr seg # rest"] chunk_bytes_def)

lemma length_int16_pairs: "length (int16_pairs bs) = length bs div 2"
  by (induction bs rule: int16_pairs.induct) simp_all

lemma nth_int16_pairs:
  "i < length bs div 2 \<Longrightarrow> int16_pairs bs ! i = le_int16 (bs ! (2 * i)) (bs ! (2 * i + 1))"
proof (induction bs arbitrary: i rule: int16_pairs.induct)
  case (1 lo hi bs)
  then show ?case by (cases i) simp_all
qed simp_all

lemma sample_range:
  fixes w :: int16
  shows "- 1 \<le> real_of_int (sint w) / 32768" and "real_of_int (sint w) / 32768 \<le> 32767 / 32768"
proof -
  have "- 32768 \<le> sint w" using sint_ge [of w] by simp
  then have "real_of_int (- 32768) \<le> real_of_int (sint w)" by (simp only: of_int_le_iff)
  then show "- 1 \<le> real_of_int (sint w) / 32768" by simp
  have "sint w < 32768" using sint_lt [of w] by simp
  then have "sint w \<le> 32767" by simp
  then have "real_of_int (sint w) \<le> real_of_int 32767" by (simp only: of_int_le_iff)
  then show "real_of_int (sint w) / 32768 \<le> 32767 / 32768" by simp
qed

lemma normalize_nth: "i < length samples \<Longrightarrow> normalize_samples samples ! i = real_of_int (sint (samples ! i)) / 32768"
  by (simp add: normalize_samples_def)

section \<open>Sample converter\<close>

text \<open>
  C5. Every block of 2560 bytes is read as exactly 1280 signed 16-bit integers, sample
  \<open>i\<close> made of the bytes \<open>2 * i\<close> (low) and \<open>2 * i + 1\<close> (high), and each is mapped
  to its value divided by 32768: exactly 1280 numbers, each in \<open>[-1, 32767/32768]\<close>.
  Both ends of that range are reached, by the samples \<^verbatim>\<open>00 80\<close> and \<^verbatim>\<open>FF 7F\<close>.
\<close>

theorem sample_converter_block:
  assumes "length raw = chunk_bytes"
  shows "\<exists>samples. frombuffer_int16 raw = Inr samples
           \<and> length samples = 1280
           \<and> (\<forall>i<1280. samples ! i = le_int16 (raw ! (2 * i)) (raw ! (2 * i + 1)))
           \<and> length (normalize_samples samples) = 1280
           \<and> (\<forall>i<1280. normalize_samples samples ! i = real_of_int (sint (samples ! i)) / 32768)
           \<and> (\<forall>x\<in>set (normalize_samples samples). - 1 \<le> x \<and> x \<le> 32767 / 32768)
           \<and> normalize_samples [le_int16 0 128] = [- 1]
           \<and> normalize_samples [le_int16 255 127] = [32767 / 32768]"
proof -
  let ?samples = "int16_pairs raw"
  have len: "length ?samples = 1280"
    using assms by (simp add: length_int16_pairs chunk_bytes_def)
  have fb: "frombuffer_int16 raw = Inr ?samples"
    using assms by (simp add: frombuffer_int16_def chunk_bytes_def)
  have nth: "\<forall>i<1280. ?samples ! i = le_int16 (raw ! (2 * i)) (raw ! (2 * i + 1))"
    using assms by (simp add: nth_int16_pairs chunk_bytes_def)
  have nlen: "length (normalize_samples ?samples) = 1280"
    using len by (simp add: normalize_samples_def)
  have nnth: "\<forall>i<1280. normalize_samples ?samples ! i = real_of_int (sint (?samples ! i)) / 32768"
    using len by (simp add: normalize_nth)
  have rng: "\<forall>x\<in>set (normalize_samples ?samples). - 1 \<le> x \<and> x \<le> 32767 / 32768"
    using sample_range by (auto simp: normalize_samples_def)
  have lo: "normalize_samples [le_int16 0 128] = [- 1]"
    by (simp add: normalize_samples_def le_int16_def)
  have hi: "normalize_samples [le_int16 255 127] = [32767 / 32768]"
    by (simp add: normalize_samples_def le_int16_def)
  from fb len nth nlen nnth rng lo hi show ?thesis by blast
qed

theorem sample_converter_block_witness:
  "\<exists>samples. frombuffer_int16 (replicate 2560 0) = Inr samples
     \<and> length samples = 1280
     \<and> (\<forall>x\<in>set (normalize_samples samples). - 1 \<le> x \<and> x \<le> 32767 / 32768)"
proof -
  have "length (replicate 2560 (0::byte)) = chunk_bytes" by (simp add: chunk_bytes_def)
  from sample_converter_block [OF this] show ?thesis by blast
qed

lemmas env_defs = quiet_env_def unloadable_env_def crashing_env_def scripted_env_def

lemma frombuffer_silence: "frombuffer_int16 silence = Inr (int16_pairs silence)"
  by (simp add: frombuffer_int16_def silence_def)

lemma length_pairs_silence: "length (int16_pairs silence) = 1280"
  by (simp add: length_int16_pairs silence_def)

lemma take_silence: "take chunk_bytes silence = silence" "length silence = 2560"
  by (simp_all add: chunk_bytes_def silence_def)

lemmas silence_simps = frombuffer_silence length_pairs_silence take_silence

section \<open>Start-up failures\<close>

text \<open>
  C1, as the code has it. With no model path on the command line (or an empty one),
  listener mode writes nothing to standard output, writes its diagnostic to standard error
  and exits with status 1, whatever the input; scoring mode prints the line
  \<^verbatim>\<open>MAX 0.0\<close> on standard output (when standard output takes it) and exits with
  status 1.
\<close>

theorem missing_model_path:
  assumes "model_path_of argv = None"
  shows "listener_main W argv deps_ok inp =
           \<lparr>stdout = [],
            stderr = [''WAKE_LISTENER_ERROR: need model path (e.g. scripts/wake_listener.py models/wake/hey_jeeves.onnx)''],
            status = Exit 1\<rparr>
         \<and> (\<not> stdout_broken W 0 \<longrightarrow>
              score_main W argv inp = \<lparr>stdout = [MAX_line 0], stderr = [], status = Exit 1\<rparr>)"
  using assms by (simp add: listener_main_def score_main_def score_exit_def print_stdout_def)

theorem missing_model_path_witness:
  "stdout (listener_main quiet_env [''scripts/wake_listener.py''] True [Inr silence]) = []
   \<and> status (listener_main quiet_env [''scripts/wake_listener.py''] True [Inr silence]) = Exit 1
   \<and> score_main quiet_env [''scripts/wake_score_stdin.py''] [Inr silence]
       = \<lparr>stdout = [MAX_line 0], stderr = [], status = Exit 1\<rparr>"
  using missing_model_path [of "[''scripts/wake_listener.py'']" quiet_env True "[Inr silence]"]
    missing_model_path [of "[''scripts/wake_score_stdin.py'']" quiet_env True "[Inr silence]"]
  by (simp add: model_path_of_def quiet_env_def scripted_env_def)

text \<open>
  C1 as stated fails in scoring mode: started without a model path, it does write to
  standard output.
\<close>

theorem missing_model_path_counterexample:
  "model_path_of [''scripts/wake_score_stdin.py''] = None
   \<and> stdout (score_main quiet_env [''scripts/wake_score_stdin.py''] []) = [MAX_line 0]
   \<and> stdout (score_main quiet_env [''scripts/wake_score_stdin.py''] []) \<noteq> []"
  by (simp add: score_main_def score_exit_def print_stdout_def model_path_of_def quiet_env_def
      scripted_env_def)

text \<open>
  C9. When the model fails to load with an exception \<open>e\<close>, listener mode writes
  \<^verbatim>\<open>WAKE_LISTENER_ERROR: failed to load model: \<close> followed by the text of \<open>e\<close> to
  standard error and exits with status 1; the outcome is the same for every input, so no
  frame is read. Scoring mode prints \<^verbatim>\<open>MAX 0.0\<close> on standard output and exits with
  status 1.
\<close>

theorem model_load_failure:
  assumes "model_path_of argv = Some path"
    and "load_model W path = Inl e"
    and "is_Exception e"
  shows "listener_main W argv True inp =
           \<lparr>stdout = [],
            stderr = [''WAKE_LISTENER_ERROR: failed to load model: '' @ str e],
            status = Exit 1\<rparr>
         \<and> listener_main W argv True inp = listener_main W argv True []
         \<and> (\<not> stdout_broken W 0 \<longrightarrow>
              score_main W argv inp = \<lparr>stdout = [MAX_line 0], stderr = [], status = Exit 1\<rparr>)"
  using assms by (simp add: listener_main_def score_main_def score_exit_def print_stdout_def)

theorem model_load_failure_witness:
  "listener_main unloadable_env [''scripts/wake_listener.py'', ''missing.onnx''] True [Inr silence] =
     \<lparr>stdout = [],
      stderr = [''WAKE_LISTENER_ERROR: failed to load model: No such file''],
      status = Exit 1\<rparr>
   \<and> score_main unloadable_env [''scripts/wake_score_stdin.py'', ''missing.onnx''] [Inr silence]
       = \<lparr>stdout = [MAX_line 0], stderr = [], status = Exit 1\<rparr>"
  using model_load_failure [of "[''scripts/wake_listener.py'', ''missing.onnx'']" "''missing.onnx''"
      unloadable_env "Exception ''No such file''" "[Inr silence]"]
    model_load_failure [of "[''scripts/wake_score_stdin.py'', ''missing.onnx'']" "''missing.onnx''"
      unloadable_env "Exception ''No such file''" "[Inr silence]"]
  by (simp add: model_path_of_def env_defs)

section \<open>Exceptions that leave the loop\<close>

text \<open>
  C7, as the code has it. In listener mode a \<open>BrokenPipeError\<close> or a
  \<open>KeyboardInterrupt\<close> that leaves the loop is passed over: nothing is written to
  standard error, the lines already printed stay, and \<^verbatim>\<open>main\<close> returns. In scoring
  mode the loop is inside no \<^verbatim>\<open>try\<close>: the same exception leaves \<^verbatim>\<open>main\<close>
  uncaught.
\<close>

theorem interruption_handling:
  assumes "model_path_of argv = Some path"
    and "load_model W path = Inr (keys, m)"
    and "is_interruption e"
  shows "(listener_loop W (listener_model_name keys) (listener_init m) inp = (s, Some e) \<longrightarrow>
            listener_main W argv True inp =
              \<lparr>stdout = stdout_of (trace s), stderr = [], status = Exit 0\<rparr>)
         \<and> (keys = name # ks \<and> score_loop W name (score_init m) inp = (s', Some e) \<longrightarrow>
            score_main W argv inp = \<lparr>stdout = [], stderr = [], status = Traceback e\<rparr>)"
  using assms by (simp add: listener_main_def score_main_def)

theorem interruption_handling_witness:
  "listener_main quiet_env [''scripts/wake_listener.py'', ''hey_jeeves.onnx''] True
       [Inr silence, Inl (KeyboardInterrupt [])] =
     \<lparr>stdout = [], stderr = [], status = Exit 0\<rparr>
   \<and> score_main quiet_env [''scripts/wake_score_stdin.py'', ''hey_jeeves.onnx'']
       [Inr silence, Inl (KeyboardInterrupt [])] =
     \<lparr>stdout = [], stderr = [], status = Traceback (KeyboardInterrupt [])\<rparr>"
  using interruption_handling [of "[''scripts/wake_listener.py'', ''hey_jeeves.onnx'']" "''hey_jeeves.onnx''"
      quiet_env "[''hey_jeeves'']" 0 "KeyboardInterrupt []" "[Inr silence, Inl (KeyboardInterrupt [])]"
      "(listener_init 0)\<lparr>l_model := Suc 0\<rparr>" "''hey_jeeves''" "[]" "(score_init 0)\<lparr>s_model := Suc 0\<rparr>"]
    interruption_handling [of "[''scripts/wake_score_stdin.py'', ''hey_jeeves.onnx'']" "''hey_jeeves.onnx''"
      quiet_env "[''hey_jeeves'']" 0 "KeyboardInterrupt []" "[Inr silence, Inl (KeyboardInterrupt [])]"
      "(listener_init 0)\<lparr>l_model := Suc 0\<rparr>" "''hey_jeeves''" "[]" "(score_init 0)\<lparr>s_model := Suc 0\<rparr>"]
  by (simp add: model_path_of_def env_defs listener_loop_Inr score_loop_Inr silence_simps
      listener_frame_def score_frame_def listener_model_name_def listener_init_def score_init_def
      get_score_def threshold_def chunk_bytes_def)

text \<open>
  C7 as stated fails in scoring mode: an interrupt during the first read ends the process
  with an uncaught \<open>KeyboardInterrupt\<close>.
\<close>

theorem interruption_handling_counterexample:
  "score_main quiet_env [''scripts/wake_score_stdin.py'', ''hey_jeeves.onnx'']
       [Inl (KeyboardInterrupt [])] =
     \<lparr>stdout = [], stderr = [], status = Traceback (KeyboardInterrupt [])\<rparr>"
  by (simp add: score_main_def model_path_of_def env_defs score_init_def)

text \<open>
  C8, as the code has it. An exception raised by the body of the loop ends the loop at
  once, in both modes. In listener mode every exception other than \<open>BrokenPipeError\<close> and
  \<open>KeyboardInterrupt\<close> that leaves the loop is reported on standard error as
  \<^verbatim>\<open>WAKE_LISTENER_ERROR: \<close> followed by its text, and the process exits with status 1.
  In scoring mode it leaves \<^verbatim>\<open>main\<close> uncaught.
\<close>

theorem frame_exception_handling:
  assumes "model_path_of argv = Some path"
    and "load_model W path = Inr (keys, m)"
    and "\<not> is_interruption e"
  shows "(listener_loop W (listener_model_name keys) (listener_init m) inp = (s, Some e) \<longrightarrow>
            listener_main W argv True inp =
              \<lparr>stdout = stdout_of (trace s),
               stderr = [''WAKE_LISTENER_ERROR: '' @ str e],
               status = Exit 1\<rparr>)
         \<and> (keys = name # ks \<and> score_loop W name (score_init m) inp = (s', Some e) \<longrightarrow>
            score_main W argv inp = \<lparr>stdout = [], stderr = [], status = Traceback e\<rparr>)
         \<and> (chunk_bytes \<le> length seg
              \<and> listener_frame W name t (take chunk_bytes seg) = (t', Some e) \<longrightarrow>
            listener_loop W name t (Inr seg # rest) = (t', Some e))
         \<and> (chunk_bytes \<le> length seg
              \<and> score_frame W name u (take chunk_bytes seg) = (u', Some e) \<longrightarrow>
            score_loop W name u (Inr seg # rest) = (u', Some e))"
proof -
  from assms(3) have "is_Exception e" by (cases e) simp_all
  with assms show ?thesis
    by (simp add: listener_main_def score_main_def listener_loop_Inr score_loop_Inr)
qed

theorem frame_exception_handling_witness:
  "listener_main crashing_env [''scripts/wake_listener.py'', ''hey_jeeves.onnx''] True
       [Inr silence, Inr silence] =
     \<lparr>stdout = [], stderr = [''WAKE_LISTENER_ERROR: inference failed''], status = Exit 1\<rparr>
   \<and> score_main crashing_env [''scripts/wake_score_stdin.py'', ''hey_jeeves.onnx'']
       [Inr silence, Inr silence] =
     \<lparr>stdout = [], stderr = [], status = Traceback (Exception ''inference failed'')\<rparr>"
  using frame_exception_handling [of "[''scripts/wake_listener.py'', ''hey_jeeves.onnx'']" "''hey_jeeves.onnx''"
      crashing_env "[''hey_jeeves'']" 0 "Exception ''inference failed''" "[Inr silence, Inr silence]"
      "listener_init 0" "''hey_jeeves''" "[]" "score_init 0" silence "listener_init 0" "listener_init 0"
      "[Inr silence]" "score_init 0" "score_init 0"]
    frame_exception_handling [of "[''scripts/wake_score_stdin.py'', ''hey_jeeves.onnx'']" "''hey_jeeves.onnx''"
      crashing_env "[''hey_jeeves'']" 0 "Exception ''inference failed''" "[Inr silence, Inr silence]"
      "listener_init 0" "''hey_jeeves''" "[]" "score_init 0" silence "listener_init 0" "listener_init 0"
      "[Inr silence]" "score_init 0" "score_init 0"]
  by (simp add: model_path_of_def env_defs listener_loop_Inr score_loop_Inr silence_simps
      listener_frame_def score_frame_def listener_model_name_def listener_init_def score_init_def
      chunk_bytes_def)

text \<open>
  C8 as stated fails in scoring mode: a scorer that raises on the first frame ends the
  process with the exception uncaught and no diagnostic of the script's own.
\<close>

theorem frame_exception_handling_counterexample:
  "score_main crashing_env [''scripts/wake_score_stdin.py'', ''hey_jeeves.onnx''] [Inr silence] =
     \<lparr>stdout = [], stderr = [], status = Traceback (Exception ''inference failed'')\<rparr>"
  by (simp add: score_main_def model_path_of_def env_defs score_loop_Inr silence_simps
      score_frame_def score_init_def chunk_bytes_def)

section \<open>Facts about the loops\<close>

lemma stdin_induct [case_names Nil Inl Short Full]:
  fixes inp :: stdin
  assumes nil: "\<And>s. P s []"
    and inl: "\<And>s e rest. P s (Inl e # rest)"
    and short: "\<And>s seg rest. length seg < chunk_bytes \<Longrightarrow> P s (Inr seg # rest)"
    and full: "\<And>s seg rest. chunk_bytes \<le> length seg \<Longrightarrow>
                 (\<And>s'. P s' (if chunk_bytes < length seg then Inr (drop chunk_bytes seg) # rest else rest))
                 \<Longrightarrow> P s (Inr seg # rest)"
  shows "P s inp"
proof (induction "stdin_size inp" arbitrary: s inp rule: less_induct)
  case less
  show ?case
  proof (cases inp)
    case Nil
    then show ?thesis by (simp add: nil)
  next
    case (Cons a rest)
    show ?thesis
    proof (cases a)
      case (Inl e)
      with Cons show ?thesis by (simp add: inl)
    next
      case (Inr seg)
      show ?thesis
      proof (cases "length seg < chunk_bytes")
        case True
        with Cons Inr show ?thesis by (simp add: short)
      next
        case False
        let ?inp' = "if chunk_bytes < length seg then Inr (drop chunk_bytes seg) # rest else rest"
        have "stdin_size ?inp' < stdin_size inp"
          using Cons Inr False by (auto simp: chunk_bytes_def)
        then have "\<And>s'. P s' ?inp'" by (rule less)
        with False Cons Inr show ?thesis by (simp add: full)
      qed
    qed
  qed
qed

lemma listener_loop_block:
  assumes "length blk = chunk_bytes"
  shows "listener_loop W name s (Inr (blk @ bs) # rest) =
     (case listener_frame W name s blk of
        (s', Some e) \<Rightarrow> (s', Some e)
      | (s', None) \<Rightarrow> listener_loop W name s' (if bs = [] then rest else Inr bs # rest))"
  using assms by (simp add: listener_loop_Inr)

lemma score_loop_block:
  assumes "length blk = chunk_bytes"
  shows "score_loop W name s (Inr (blk @ bs) # rest) =
     (case score_frame W name s blk of
        (s', Some e) \<Rightarrow> (s', Some e)
      | (s', None) \<Rightarrow> score_loop W name s' (if bs = [] then rest else Inr bs # rest))"
  using assms by (simp add: score_loop_Inr)

lemma length_silence: "length silence = chunk_bytes"
  by (simp add: silence_def chunk_bytes_def)

lemma stdout_of_append [simp]: "stdout_of (es @ es') = stdout_of es @ stdout_of es'"
  by (induction es rule: stdout_of.induct) simp_all

lemma listener_frame_trace_grows:
  "\<exists>es. trace (fst (listener_frame W name s raw)) = trace s @ es"
  by (auto simp: listener_frame_def Let_def split: sum.splits prod.splits)

lemma listener_loop_trace_grows:
  "\<exists>es. trace (fst (listener_loop W name s inp)) = trace s @ es"
proof (induction s inp rule: stdin_induct)
  case (Full s seg rest)
  obtain s' r where fr: "listener_frame W name s (take chunk_bytes seg) = (s', r)"
    by (cases "listener_frame W name s (take chunk_bytes seg)")
  from listener_frame_trace_grows [of W name s "take chunk_bytes seg"] fr
  obtain es where es: "trace s' = trace s @ es" by auto
  show ?case
  proof (cases r)
    case None
    from Full(2) [of s'] es Full(1) fr None show ?thesis
      by (auto simp: listener_loop_Inr)
  next
    case (Some e)
    with es Full(1) fr show ?thesis by (simp add: listener_loop_Inr)
  qed
qed (simp_all add: listener_loop_Inr)

lemma listener_frame_scored:
  assumes "frombuffer_int16 raw = Inr samples"
    and "length samples = 1280"
    and "predict W (l_model s) (normalize_samples samples) = Inr (p, m')"
  shows "listener_frame W name s raw =
     (if get_score p name < threshold then (s\<lparr>l_model := m'\<rparr>, None)
      else if clock W (ticks s) - last_wake s < debounce_seconds then (frame_debounced W s m', None)
      else if stdout_broken W (length (stdout_of (trace s)))
        then (frame_stamped W s m', Some (BrokenPipeError ''[Errno 32] Broken pipe''))
      else (frame_woken W s m', None))"
  using assms
  by (simp add: listener_frame_def Let_def print_stdout_def frame_debounced_def frame_stamped_def
      frame_woken_def not_less)

lemma listener_frame_unscored:
  assumes "\<forall>samples p m'. frombuffer_int16 raw = Inr samples \<longrightarrow> length samples = 1280 \<longrightarrow>
             predict W (l_model s) (normalize_samples samples) \<noteq> Inr (p, m')"
  shows "\<exists>r. listener_frame W name s raw = (s, r)"
  using assms
  by (auto simp: listener_frame_def split: sum.splits)

lemma listener_frame_outcomes:
  "(\<exists>r. listener_frame W name s raw = (s, r))
   \<or> (\<exists>m' score. scored_as W name s raw score m' \<and> score < threshold
        \<and> listener_frame W name s raw = (s\<lparr>l_model := m'\<rparr>, None))
   \<or> (\<exists>m' score. scored_as W name s raw score m' \<and> threshold \<le> score
        \<and> clock W (ticks s) - last_wake s < debounce_seconds
        \<and> listener_frame W name s raw = (frame_debounced W s m', None))
   \<or> (\<exists>m' score e. scored_as W name s raw score m' \<and> threshold \<le> score
        \<and> debounce_seconds \<le> clock W (ticks s) - last_wake s
        \<and> stdout_broken W (length (stdout_of (trace s)))
        \<and> listener_frame W name s raw = (frame_stamped W s m', Some e))
   \<or> (\<exists>m' score. scored_as W name s raw score m' \<and> threshold \<le> score
        \<and> debounce_seconds \<le> clock W (ticks s) - last_wake s
        \<and> \<not> stdout_broken W (length (stdout_of (trace s)))
        \<and> listener_frame W name s raw = (frame_woken W s m', None))"
proof (cases "\<exists>samples p m'. frombuffer_int16 raw = Inr samples \<and> length samples = 1280
                 \<and> predict W (l_model s) (normalize_samples samples) = Inr (p, m')")
  case False
  then have "\<exists>r. listener_frame W name s raw = (s, r)"
    by (intro listener_frame_unscored) blast
  then show ?thesis by blast
next
  case True
  then obtain samples p m' where sc: "frombuffer_int16 raw = Inr samples" "length samples = 1280"
      "predict W (l_model s) (normalize_samples samples) = Inr (p, m')"
    by blast
  then have sa: "scored_as W name s raw (get_score p name) m'"
    by (auto simp: scored_as_def)
  note ev = listener_frame_scored [OF sc, of name]
  consider (low) "get_score p name < threshold"
    | (deb) "threshold \<le> get_score p name" "clock W (ticks s) - last_wake s < debounce_seconds"
    | (brk) "threshold \<le> get_score p name" "debounce_seconds \<le> clock W (ticks s) - last_wake s"
        "stdout_broken W (length (stdout_of (trace s)))"
    | (wake) "threshold \<le> get_score p name" "debounce_seconds \<le> clock W (ticks s) - last_wake s"
        "\<not> stdout_broken W (length (stdout_of (trace s)))"
    by fastforce
  then show ?thesis
  proof cases
    case low
    with ev sa show ?thesis by auto
  next
    case deb
    with ev sa have "scored_as W name s raw (get_score p name) m' \<and> threshold \<le> get_score p name
        \<and> clock W (ticks s) - last_wake s < debounce_seconds
        \<and> listener_frame W name s raw = (frame_debounced W s m', None)"
      by simp
    then show ?thesis by blast
  next
    case brk
    with ev sa have "scored_as W name s raw (get_score p name) m' \<and> threshold \<le> get_score p name
        \<and> debounce_seconds \<le> clock W (ticks s) - last_wake s
        \<and> stdout_broken W (length (stdout_of (trace s)))
        \<and> listener_frame W name s raw = (frame_stamped W s m', Some (BrokenPipeError ''[Errno 32] Broken pipe''))"
      by simp
    then show ?thesis by blast
  next
    case wake
    with ev sa have "scored_as W name s raw (get_score p name) m' \<and> threshold \<le> get_score p name
        \<and> debounce_seconds \<le> clock W (ticks s) - last_wake s
        \<and> \<not> stdout_broken W (length (stdout_of (trace s)))
        \<and> listener_frame W name s raw = (frame_woken W s m', None)"
      by simp
    then show ?thesis by blast
  qed
qed

lemmas frame_state_defs = frame_debounced_def frame_stamped_def frame_woken_def

lemma wake_times_append:
  "wake_times t (es @ es') = wake_times t es @ wake_times (last_clock t es) es'"
  by (induction t es rule: wake_times.induct) simp_all

lemma wake_times_count: "length (wake_times t es) = count_list (stdout_of es) WAKE"
  by (induction t es rule: wake_times.induct) simp_all

lemma scripted_env_sel [simp]:
  "clock (scripted_env sc clk br) = clk"
  "stdout_broken (scripted_env sc clk br) = br"
  "load_model (scripted_env sc clk br) = (\<lambda>path. Inr ([''hey_jeeves''], 0))"
  "predict (scripted_env sc clk br) = (\<lambda>n frame. Inr ([''hey_jeeves'' \<mapsto> sc n], Suc n))"
  by (simp_all add: scripted_env_def)

lemma listener_frame_scripted:
  "listener_frame (scripted_env sc clk br) ''hey_jeeves'' s silence =
     (if sc (l_model s) < threshold then (s\<lparr>l_model := Suc (l_model s)\<rparr>, None)
      else if clk (ticks s) - last_wake s < debounce_seconds
        then (frame_debounced (scripted_env sc clk br) s (Suc (l_model s)), None)
      else if br (length (stdout_of (trace s)))
        then (frame_stamped (scripted_env sc clk br) s (Suc (l_model s)),
              Some (BrokenPipeError ''[Errno 32] Broken pipe''))
      else (frame_woken (scripted_env sc clk br) s (Suc (l_model s)), None))"
  using listener_frame_scored [OF frombuffer_silence length_pairs_silence,
      of "scripted_env sc clk br" s "[''hey_jeeves'' \<mapsto> sc (l_model s)]" "Suc (l_model s)" "''hey_jeeves''"]
  by (simp add: scripted_env_def get_score_def)

lemma scenario_env_sel:
  "clock scenario_env = scenario_clock"
  "stdout_broken scenario_env n = False"
  "predict scenario_env k f = Inr ([''hey_jeeves'' \<mapsto> 0.6], Suc k)"
  by (simp_all add: scenario_env_def)

lemma scenario_frame:
  "listener_frame scenario_env ''hey_jeeves'' s silence =
     (if scenario_clock (ticks s) - last_wake s < debounce_seconds
        then (frame_debounced scenario_env s (Suc (l_model s)), None)
      else (frame_woken scenario_env s (Suc (l_model s)), None))"
  by (simp add: scenario_env_def listener_frame_scripted threshold_def)

lemma scenario_first_frame:
  "listener_frame scenario_env ''hey_jeeves'' (listener_init 0) silence =
     (\<lparr>l_model = Suc 0, last_wake = 100, ticks = 2,
       trace = [ClockRead 100, ClockRead 100, Print WAKE]\<rparr>, None)"
  by (simp add: scenario_frame scenario_env_sel frame_state_defs listener_init_def
      scenario_clock_def debounce_seconds_def)

lemma scenario_run:
  "listener_loop scenario_env ''hey_jeeves'' (listener_init 0) [Inr (silence @ silence @ silence)] =
     (\<lparr>l_model = 3, last_wake = 103, ticks = 5,
       trace = [ClockRead 100, ClockRead 100, Print WAKE, ClockRead 101,
                ClockRead 103, ClockRead 103, Print WAKE]\<rparr>, None)"
proof -
  let ?s1 = "\<lparr>l_model = Suc 0, last_wake = 100, ticks = 2,
       trace = [ClockRead 100, ClockRead 100, Print WAKE]\<rparr>"
  let ?s2 = "\<lparr>l_model = 2, last_wake = 100, ticks = 3,
       trace = [ClockRead 100, ClockRead 100, Print WAKE, ClockRead 101]\<rparr>"
  let ?s3 = "\<lparr>l_model = 3, last_wake = 103, ticks = 5,
       trace = [ClockRead 100, ClockRead 100, Print WAKE, ClockRead 101,
                ClockRead 103, ClockRead 103, Print WAKE]\<rparr>"
  have f2: "listener_frame scenario_env ''hey_jeeves'' ?s1 silence = (?s2, None)"
    by (simp add: scenario_frame scenario_env_sel frame_state_defs
      scenario_clock_def debounce_seconds_def)
  have f3: "listener_frame scenario_env ''hey_jeeves'' ?s2 silence = (?s3, None)"
    by (simp add: scenario_frame scenario_env_sel frame_state_defs
      scenario_clock_def debounce_seconds_def)
  have l3: "listener_loop scenario_env ''hey_jeeves'' ?s2 [Inr silence] = (?s3, None)"
    using listener_loop_block [OF length_silence, of scenario_env "''hey_jeeves''" ?s2 "[]" "[]"] f3
    by simp
  have l2: "listener_loop scenario_env ''hey_jeeves'' ?s1 [Inr (silence @ silence)] = (?s3, None)"
    using listener_loop_block [OF length_silence, of scenario_env "''hey_jeeves''" ?s1 silence "[]"] f2 l3
    by (simp add: silence_def)
  show ?thesis
    using listener_loop_block [OF length_silence, of scenario_env "''hey_jeeves''" "listener_init 0"
        "silence @ silence" "[]"] scenario_first_frame l2
    by (simp add: silence_def)
qed

section \<open>Threshold\<close>

lemma listener_loop_below_threshold:
  assumes "\<forall>m f p m'. predict W m f = Inr (p, m') \<longrightarrow> get_score p name < threshold"
  shows "trace (fst (listener_loop W name s inp)) = trace s
         \<and> last_wake (fst (listener_loop W name s inp)) = last_wake s"
proof (induction s inp rule: stdin_induct)
  case (Full s seg rest)
  let ?raw = "take chunk_bytes seg"
  from listener_frame_outcomes [of W name s ?raw] assms
  consider (same) r where "listener_frame W name s ?raw = (s, r)"
    | (low) m' where "listener_frame W name s ?raw = (s\<lparr>l_model := m'\<rparr>, None)"
    by (fastforce simp: scored_as_def)
  then show ?case
  proof cases
    case same
    with Full show ?thesis by (cases r) (simp_all add: listener_loop_Inr)
  next
    case low
    with Full(1) Full(2) [of "s\<lparr>l_model := m'\<rparr>"] show ?thesis
      by (simp add: listener_loop_Inr)
  qed
qed (simp_all add: listener_loop_Inr)

text \<open>
  C4. A frame whose score for the active keyword (0 when the keyword is missing from the
  predictions) is strictly below 0.5 prints nothing: the body of the loop ends normally,
  the trace, and with it standard output, and \<^verbatim>\<open>last_wake\<close> are unchanged. Hence a
  run in which every score is below 0.5 prints nothing at all.
\<close>

theorem no_wake_below_threshold:
  assumes "frombuffer_int16 raw = Inr samples"
    and "predict W (l_model s) (normalize_samples samples) = Inr (p, m')"
    and "get_score p name < 0.5"
  shows "snd (listener_frame W name s raw) = None
         \<and> trace (fst (listener_frame W name s raw)) = trace s
         \<and> stdout_of (trace (fst (listener_frame W name s raw))) = stdout_of (trace s)
         \<and> last_wake (fst (listener_frame W name s raw)) = last_wake s
         \<and> (p name = None \<longrightarrow> get_score p name = 0)
         \<and> ((\<forall>m f q m'. predict W m f = Inr (q, m') \<longrightarrow> get_score q name < 0.5) \<longrightarrow>
              stdout_of (trace (fst (listener_loop W name s inp))) = stdout_of (trace s))"
proof -
  have fr: "listener_frame W name s raw = (if length samples = 1280 then s\<lparr>l_model := m'\<rparr> else s, None)"
    using assms by (simp add: listener_frame_def threshold_def)
  have lp: "(\<forall>m f q m'. predict W m f = Inr (q, m') \<longrightarrow> get_score q name < 0.5) \<longrightarrow>
              stdout_of (trace (fst (listener_loop W name s inp))) = stdout_of (trace s)"
    using listener_loop_below_threshold [of W name s inp] by (simp add: threshold_def)
  from fr lp show ?thesis by (simp add: get_score_def)
qed

theorem no_wake_below_threshold_witness:
  "stdout_of (trace (fst (listener_frame quiet_env ''hey_jeeves'' (listener_init 0) silence))) = []
   \<and> stdout_of (trace (fst (listener_loop quiet_env ''hey_jeeves'' (listener_init 0)
         [Inr silence, Inr silence]))) = []"
  using no_wake_below_threshold [of silence "int16_pairs silence" quiet_env "listener_init 0"
      "[''hey_jeeves'' \<mapsto> 0]" "Suc 0" "''hey_jeeves''" "[Inr silence, Inr silence]"]
  by (simp add: silence_simps env_defs listener_init_def get_score_def)

section \<open>The first wake\<close>

lemma first_wake_loop:
  assumes "debounce_seconds \<le> clock W 0" and "\<not> stdout_broken W 0"
  shows "last_wake s = 0 \<and> ticks s = 0 \<and> trace s = [] \<longrightarrow>
           trace (fst (listener_loop W name s inp)) = []
           \<or> take 3 (trace (fst (listener_loop W name s inp))) =
               [ClockRead (clock W 0), ClockRead (clock W 1), Print WAKE]"
proof (induction s inp rule: stdin_induct)
  case (Full s seg rest)
  let ?raw = "take chunk_bytes seg"
  show ?case
  proof
    assume init: "last_wake s = 0 \<and> ticks s = 0 \<and> trace s = []"
    from listener_frame_outcomes [of W name s ?raw] init assms
    consider (same) r where "listener_frame W name s ?raw = (s, r)"
      | (low) m' where "listener_frame W name s ?raw = (s\<lparr>l_model := m'\<rparr>, None)"
      | (wake) m' where "listener_frame W name s ?raw = (frame_woken W s m', None)"
      by fastforce
    then show "trace (fst (listener_loop W name s (Inr seg # rest))) = []
           \<or> take 3 (trace (fst (listener_loop W name s (Inr seg # rest)))) =
               [ClockRead (clock W 0), ClockRead (clock W 1), Print WAKE]"
    proof cases
      case same
      with Full init show ?thesis by (cases r) (simp_all add: listener_loop_Inr)
    next
      case low
      with Full(1) Full(2) [of "s\<lparr>l_model := m'\<rparr>"] init show ?thesis
        by (simp add: listener_loop_Inr)
    next
      case wake
      let ?inp' = "if chunk_bytes < length seg then Inr (drop chunk_bytes seg) # rest else rest"
      from listener_loop_trace_grows [of W name "frame_woken W s m'" ?inp']
      obtain es where "trace (fst (listener_loop W name (frame_woken W s m') ?inp'))
          = trace (frame_woken W s m') @ es"
        by blast
      with wake Full(1) init show ?thesis
        by (simp add: listener_loop_Inr frame_woken_def)
    qed
  qed
qed (simp_all add: listener_loop_Inr)

text \<open>
  C10. \<^verbatim>\<open>last_wake\<close> starts as the number 0. With a clock that always reads at least
  2.5 and a standard output that takes the first line, a frame scored at 0.5 or more in a
  state where \<^verbatim>\<open>last_wake\<close> is still 0 and nothing has been printed reads the clock
  twice and prints \<^verbatim>\<open>WAKE\<close>. For the whole run: the clock is read only for a frame
  whose score has reached the threshold, and the trace of the run is either empty or begins
  with two clock readings and \<^verbatim>\<open>WAKE\<close>; the first frame that reaches the threshold
  is never suppressed.
\<close>

theorem first_wake_not_debounced:
  assumes "\<forall>n. 2.5 \<le> clock W n"
    and "\<not> stdout_broken W 0"
  shows "last_wake (listener_init m) = 0
         \<and> (frombuffer_int16 raw = Inr samples \<and> length samples = 1280
              \<and> predict W (l_model s) (normalize_samples samples) = Inr (p, m')
              \<and> 0.5 \<le> get_score p name \<and> last_wake s = 0 \<and> stdout_of (trace s) = [] \<longrightarrow>
            listener_frame W name s raw =
              (s\<lparr>l_model := m', last_wake := clock W (Suc (ticks s)), ticks := Suc (Suc (ticks s)),
                 trace := trace s @ [ClockRead (clock W (ticks s)),
                                     ClockRead (clock W (Suc (ticks s))), Print WAKE]\<rparr>, None))
         \<and> (trace (fst (listener_loop W name (listener_init m) inp)) = []
              \<or> take 3 (trace (fst (listener_loop W name (listener_init m) inp))) =
                  [ClockRead (clock W 0), ClockRead (clock W 1), Print WAKE])"
proof -
  have a: "last_wake (listener_init m) = 0" by (simp add: listener_init_def)
  have b: "frombuffer_int16 raw = Inr samples \<and> length samples = 1280
              \<and> predict W (l_model s) (normalize_samples samples) = Inr (p, m')
              \<and> 0.5 \<le> get_score p name \<and> last_wake s = 0 \<and> stdout_of (trace s) = [] \<longrightarrow>
            listener_frame W name s raw =
              (s\<lparr>l_model := m', last_wake := clock W (Suc (ticks s)), ticks := Suc (Suc (ticks s)),
                 trace := trace s @ [ClockRead (clock W (ticks s)),
                                     ClockRead (clock W (Suc (ticks s))), Print WAKE]\<rparr>, None)"
  proof -
    from assms(1) have "2.5 \<le> clock W (ticks s)" by blast
    with assms(2) show ?thesis
      by (auto simp: listener_frame_scored frame_woken_def threshold_def debounce_seconds_def not_less)
  qed
  have c: "trace (fst (listener_loop W name (listener_init m) inp)) = []
              \<or> take 3 (trace (fst (listener_loop W name (listener_init m) inp))) =
                  [ClockRead (clock W 0), ClockRead (clock W 1), Print WAKE]"
    using first_wake_loop [of W "listener_init m" name inp] assms
    by (simp add: listener_init_def debounce_seconds_def)
  from a b c show ?thesis by blast
qed

theorem first_wake_not_debounced_witness:
  "listener_frame scenario_env ''hey_jeeves'' (listener_init 0) silence =
     (\<lparr>l_model = Suc 0, last_wake = 100, ticks = 2,
       trace = [ClockRead 100, ClockRead 100, Print WAKE]\<rparr>, None)
   \<and> take 3 (trace (fst (listener_loop scenario_env ''hey_jeeves'' (listener_init 0)
        [Inr (silence @ silence @ silence)]))) = [ClockRead 100, ClockRead 100, Print WAKE]"
proof -
  have h1: "\<forall>n. 2.5 \<le> clock scenario_env n"
    by (simp add: scenario_env_sel scenario_clock_def)
  have h2: "\<not> stdout_broken scenario_env 0"
    by (simp add: scenario_env_sel)
  from first_wake_not_debounced [OF h1 h2, of 0 silence "int16_pairs silence" "listener_init 0"
      "[''hey_jeeves'' \<mapsto> 0.6]" "Suc 0" "''hey_jeeves''" "[Inr (silence @ silence @ silence)]"]
  show ?thesis
    by (simp add: silence_simps scenario_env_sel scenario_run scenario_first_frame)
qed

section \<open>Debounce\<close>

lemma debounce_loop:
  assumes mono: "\<forall>i j. i \<le> j \<longrightarrow> clock W i \<le> clock W j"
  shows "successively (\<lambda>a b. debounce_seconds \<le> b - a) (wake_times t (trace s))
         \<and> (wake_times t (trace s) \<noteq> [] \<longrightarrow> last (wake_times t (trace s)) \<le> last_wake s) \<longrightarrow>
         successively (\<lambda>a b. debounce_seconds \<le> b - a)
           (wake_times t (trace (fst (listener_loop W name s inp))))"
proof (induction s inp rule: stdin_induct)
  case (Full s seg rest)
  let ?raw = "take chunk_bytes seg"
  let ?inp' = "if chunk_bytes < length seg then Inr (drop chunk_bytes seg) # rest else rest"
  let ?gap = "\<lambda>a b. debounce_seconds \<le> b - a"
  show ?case
  proof
    assume inv: "successively ?gap (wake_times t (trace s))
         \<and> (wake_times t (trace s) \<noteq> [] \<longrightarrow> last (wake_times t (trace s)) \<le> last_wake s)"
    from listener_frame_outcomes [of W name s ?raw]
    consider (same) r where "listener_frame W name s ?raw = (s, r)"
      | (low) m' where "listener_frame W name s ?raw = (s\<lparr>l_model := m'\<rparr>, None)"
      | (deb) m' where "listener_frame W name s ?raw = (frame_debounced W s m', None)"
      | (brk) m' e where "listener_frame W name s ?raw = (frame_stamped W s m', Some e)"
      | (wake) m' where "listener_frame W name s ?raw = (frame_woken W s m', None)"
          "debounce_seconds \<le> clock W (ticks s) - last_wake s"
      by blast
    then show "successively ?gap (wake_times t (trace (fst (listener_loop W name s (Inr seg # rest)))))"
    proof cases
      case same
      with Full inv show ?thesis by (cases r) (simp_all add: listener_loop_Inr)
    next
      case low
      with Full(1) Full(2) [of "s\<lparr>l_model := m'\<rparr>"] inv show ?thesis
        by (simp add: listener_loop_Inr)
    next
      case deb
      have "wake_times t (trace (frame_debounced W s m')) = wake_times t (trace s)"
        by (simp add: frame_debounced_def wake_times_append)
      moreover have "last_wake (frame_debounced W s m') = last_wake s"
        by (simp add: frame_debounced_def)
      ultimately show ?thesis
        using deb Full(1) Full(2) [of "frame_debounced W s m'"] inv
        by (simp add: listener_loop_Inr)
    next
      case brk
      have "wake_times t (trace (frame_stamped W s m')) = wake_times t (trace s)"
        by (simp add: frame_stamped_def wake_times_append)
      with brk Full(1) inv show ?thesis
        by (simp add: listener_loop_Inr)
    next
      case wake
      let ?now = "clock W (Suc (ticks s))"
      have wt: "wake_times t (trace (frame_woken W s m')) = wake_times t (trace s) @ [?now]"
        by (simp add: frame_woken_def wake_times_append)
      have lw: "last_wake (frame_woken W s m') = ?now"
        by (simp add: frame_woken_def)
      from mono have "clock W (ticks s) \<le> ?now" by simp
      with wake(2) have far: "debounce_seconds \<le> ?now - last_wake s" by simp
      have "successively ?gap (wake_times t (trace s) @ [?now])"
        using inv far by (auto simp: successively_append_iff)
      with wt lw Full(2) [of "frame_woken W s m'"]
      have "successively ?gap
          (wake_times t (trace (fst (listener_loop W name (frame_woken W s m') ?inp'))))"
        by simp
      with wake(1) Full(1) show ?thesis
        by (simp add: listener_loop_Inr)
    qed
  qed
qed (simp_all add: listener_loop_Inr)

text \<open>
  C3. With a clock that never goes back, any two consecutive \<^verbatim>\<open>WAKE\<close> lines of a
  run are at least 2.5 seconds apart, whatever the frames between them scored; there is one
  such time for every \<^verbatim>\<open>WAKE\<close> printed. A body of the loop that ends normally either
  prints \<^verbatim>\<open>WAKE\<close> and has set \<^verbatim>\<open>last_wake\<close> to the clock reading taken just
  before, which is the time of that wake, or prints nothing and leaves \<^verbatim>\<open>last_wake\<close>
  as it was.
\<close>

theorem debounce_gap:
  assumes "\<forall>i j. i \<le> j \<longrightarrow> clock W i \<le> clock W j"
  shows "successively (\<lambda>a b. 2.5 \<le> b - a)
           (wake_times 0 (trace (fst (listener_loop W name (listener_init m) inp))))
         \<and> length (wake_times 0 (trace (fst (listener_loop W name (listener_init m) inp))))
             = count_list (stdout_of (trace (fst (listener_loop W name (listener_init m) inp)))) WAKE
         \<and> (snd (listener_frame W name s raw) = None \<longrightarrow>
              (stdout_of (trace (fst (listener_frame W name s raw))) = stdout_of (trace s) @ [WAKE]
                 \<and> last_wake (fst (listener_frame W name s raw)) = clock W (Suc (ticks s))
                 \<and> wake_times t (trace (fst (listener_frame W name s raw)))
                     = wake_times t (trace s) @ [last_wake (fst (listener_frame W name s raw))])
              \<or> (stdout_of (trace (fst (listener_frame W name s raw))) = stdout_of (trace s)
                 \<and> last_wake (fst (listener_frame W name s raw)) = last_wake s
                 \<and> wake_times t (trace (fst (listener_frame W name s raw)))
                     = wake_times t (trace s)))"
proof -
  have a: "successively (\<lambda>a b. 2.5 \<le> b - a)
           (wake_times 0 (trace (fst (listener_loop W name (listener_init m) inp))))"
    using debounce_loop [OF assms, of 0 "listener_init m" name inp]
    by (simp add: listener_init_def debounce_seconds_def)
  have b: "length (wake_times 0 (trace (fst (listener_loop W name (listener_init m) inp))))
             = count_list (stdout_of (trace (fst (listener_loop W name (listener_init m) inp)))) WAKE"
    by (rule wake_times_count)
  have c: "snd (listener_frame W name s raw) = None \<longrightarrow>
              (stdout_of (trace (fst (listener_frame W name s raw))) = stdout_of (trace s) @ [WAKE]
                 \<and> last_wake (fst (listener_frame W name s raw)) = clock W (Suc (ticks s))
                 \<and> wake_times t (trace (fst (listener_frame W name s raw)))
                     = wake_times t (trace s) @ [last_wake (fst (listener_frame W name s raw))])
              \<or> (stdout_of (trace (fst (listener_frame W name s raw))) = stdout_of (trace s)
                 \<and> last_wake (fst (listener_frame W name s raw)) = last_wake s
                 \<and> wake_times t (trace (fst (listener_frame W name s raw)))
                     = wake_times t (trace s))"
    using listener_frame_outcomes [of W name s raw]
    by (auto simp: frame_state_defs wake_times_append)
  from a b c show ?thesis by blast
qed

theorem debounce_gap_witness:
  "wake_times 0 (trace (fst (listener_loop scenario_env ''hey_jeeves'' (listener_init 0)
       [Inr (silence @ silence @ silence)]))) = [100, 103]
   \<and> successively (\<lambda>a b. 2.5 \<le> b - a) [100, 103 :: real]
   \<and> stdout_of (trace (fst (listener_loop scenario_env ''hey_jeeves'' (listener_init 0)
       [Inr (silence @ silence @ silence)]))) = [WAKE, WAKE]"
proof -
  have h: "\<forall>i j. i \<le> j \<longrightarrow> clock scenario_env i \<le> clock scenario_env j"
    by (simp add: scenario_env_sel scenario_clock_def)
  from debounce_gap [OF h, of "''hey_jeeves''" 0 "[Inr (silence @ silence @ silence)]"
      "listener_init 0" silence 0]
  show ?thesis
    by (simp add: scenario_run)
qed

section \<open>Partial blocks\<close>

lemma block_induct [consumes 1, case_names Nil Block]:
  assumes dvd: "chunk_bytes dvd length (whole :: byte list)"
    and nil: "P []"
    and blk: "\<And>blk whole'. length blk = chunk_bytes \<Longrightarrow> chunk_bytes dvd length whole' \<Longrightarrow>
                 P whole' \<Longrightarrow> P (blk @ whole')"
  shows "P whole"
  using dvd
proof (induction "length whole" arbitrary: whole rule: less_induct)
  case less
  show ?case
  proof (cases "whole = []")
    case True
    then show ?thesis by (simp add: nil)
  next
    case False
    from less.prems obtain k where k: "length whole = chunk_bytes * k" by (auto simp: dvd_def)
    with False have "k \<noteq> 0" by (cases "k = 0") auto
    with k have ge: "chunk_bytes \<le> length whole" by (cases k) auto
    let ?blk = "take chunk_bytes whole" and ?whole' = "drop chunk_bytes whole"
    have l1: "length ?blk = chunk_bytes" using ge by simp
    have l2: "chunk_bytes dvd length ?whole'" using less.prems ge by simp
    have "length ?whole' < length whole" using ge False by (simp add: chunk_bytes_def)
    then have "P ?whole'" using l2 by (rule less.hyps)
    with l1 l2 have "P (?blk @ ?whole')" by (rule blk)
    then show ?thesis by simp
  qed
qed

lemma listener_loop_partial:
  assumes "chunk_bytes dvd length whole" and "seg \<noteq> []" and "length seg < chunk_bytes"
  shows "listener_loop W name s (Inr (whole @ seg) # rest) = listener_loop W name s [Inr whole]"
  using assms(1)
proof (induction whole arbitrary: s rule: block_induct)
  case Nil
  with assms show ?case by (simp add: listener_loop_Inr chunk_bytes_def)
next
  case (Block blk whole')
  show ?case
  proof (cases "listener_frame W name s blk")
    case (Pair s' r)
    show ?thesis
    proof (cases r)
      case None
      with Pair Block(1) Block(3) [of s'] assms(2) show ?thesis
        by (cases "whole' = []") (simp_all add: listener_loop_block listener_loop_Inr assms(3))
    next
      case (Some e)
      with Pair Block(1) show ?thesis by (simp add: listener_loop_block)
    qed
  qed
qed

lemma score_loop_partial:
  assumes "chunk_bytes dvd length whole" and "seg \<noteq> []" and "length seg < chunk_bytes"
  shows "score_loop W name s (Inr (whole @ seg) # rest) = score_loop W name s [Inr whole]"
  using assms(1)
proof (induction whole arbitrary: s rule: block_induct)
  case Nil
  with assms show ?case by (simp add: score_loop_Inr chunk_bytes_def)
next
  case (Block blk whole')
  show ?case
  proof (cases "score_frame W name s blk")
    case (Pair s' r)
    show ?thesis
    proof (cases r)
      case None
      with Pair Block(1) Block(3) [of s'] assms(2) show ?thesis
        by (cases "whole' = []") (simp_all add: score_loop_block score_loop_Inr assms(3))
    next
      case (Some e)
      with Pair Block(1) show ?thesis by (simp add: score_loop_block)
    qed
  qed
qed

text \<open>
  C6. In both modes a read that returns between 1 and 2559 bytes ends the loop exactly as
  the end of the input does: the state is unchanged, so the bytes are neither converted nor
  scored, and what would arrive after them is never read. For a stream made of whole blocks
  followed by such a partial block, the run is the run on the whole blocks alone. The loops
  are total functions: they end on every finite input.
\<close>

theorem partial_block_ends_loop:
  assumes "chunk_bytes dvd length whole" and "seg \<noteq> []" and "length seg < chunk_bytes"
  shows "listener_loop W name s (Inr seg # rest) = (s, None)
         \<and> score_loop W name u (Inr seg # rest) = (u, None)
         \<and> listener_loop W name s (Inr seg # rest) = listener_loop W name s []
         \<and> score_loop W name u (Inr seg # rest) = score_loop W name u []
         \<and> listener_loop W name s (Inr (whole @ seg) # rest) = listener_loop W name s [Inr whole]
         \<and> score_loop W name u (Inr (whole @ seg) # rest) = score_loop W name u [Inr whole]"
  using assms listener_loop_partial [of whole seg W name s rest]
    score_loop_partial [of whole seg W name u rest]
  by (simp add: listener_loop_Inr score_loop_Inr)

theorem partial_block_ends_loop_witness:
  "listener_loop quiet_env ''hey_jeeves'' (listener_init 0) [Inr [1, 2, 3], Inr silence]
     = (listener_init 0, None)
   \<and> score_loop quiet_env ''hey_jeeves'' (score_init 0) [Inr [1, 2, 3], Inr silence]
     = (score_init 0, None)
   \<and> listener_loop quiet_env ''hey_jeeves'' (listener_init 0) [Inr (silence @ [1, 2, 3]), Inr silence]
     = listener_loop quiet_env ''hey_jeeves'' (listener_init 0) [Inr silence]
   \<and> score_loop quiet_env ''hey_jeeves'' (score_init 0) [Inr (silence @ [1, 2, 3]), Inr silence]
     = score_loop quiet_env ''hey_jeeves'' (score_init 0) [Inr silence]"
proof -
  have h1: "chunk_bytes dvd length silence" by (simp add: length_silence)
  have h2: "[1, 2, 3 :: byte] \<noteq> []" by simp
  have h3: "length [1, 2, 3 :: byte] < chunk_bytes" by (simp add: chunk_bytes_def)
  from partial_block_ends_loop [OF h1 h2 h3, of quiet_env "''hey_jeeves''" "listener_init 0"
      "[Inr silence]" "score_init 0"]
  show ?thesis by simp
qed

section \<open>Running maximum\<close>

lemma stream_frames_short: "length bs < chunk_bytes \<Longrightarrow> stream_frames bs = []"
  by (simp add: stream_frames.simps [of bs])

lemma stream_frames_block:
  "length blk = chunk_bytes \<Longrightarrow> stream_frames (blk @ bs) = blk # stream_frames bs"
  by (simp add: stream_frames.simps [of "blk @ bs"])

lemma score_frame_block:
  assumes "length blk = chunk_bytes"
  shows "score_frame W name s blk =
     (case predict W (s_model s) (normalize_samples (int16_pairs blk)) of
        Inl e \<Rightarrow> (s, Some e)
      | Inr (p, m') \<Rightarrow>
          (s\<lparr>s_model := m', max_score := max (max_score s) (get_score p name)\<rparr>, None))"
  using assms
  by (auto simp: score_frame_def frombuffer_int16_def length_int16_pairs chunk_bytes_def Let_def
      max_def split: sum.splits)

lemma Max_insert_insert:
  fixes a :: real
  assumes "finite S"
  shows "Max (insert a (insert x S)) = Max (insert (max a x) S)"
proof (cases "S = {}")
  case True
  then show ?thesis by (simp add: max.commute)
next
  case False
  with assms show ?thesis by (simp add: max.assoc)
qed

lemma score_loop_stream:
  "frame_scores W name (s_model s) (stream_frames bs) = Some scs \<Longrightarrow>
     snd (score_loop W name s [Inr bs]) = None
     \<and> max_score (fst (score_loop W name s [Inr bs])) = Max (insert (max_score s) (set scs))"
proof (induction bs arbitrary: s scs rule: stream_frames.induct)
  case (1 bs)
  show ?case
  proof (cases "length bs < chunk_bytes")
    case True
    with "1.prems" show ?thesis
      by (simp add: stream_frames_short score_loop_Inr)
  next
    case False
    let ?blk = "take chunk_bytes bs" and ?bs' = "drop chunk_bytes bs"
    have len: "length ?blk = chunk_bytes" using False by simp
    have split: "bs = ?blk @ ?bs'" by simp
    have fr: "stream_frames bs = ?blk # stream_frames ?bs'"
      using stream_frames_block [OF len, of ?bs'] by simp
    from "1.prems" fr obtain p m' scs' where
      pr: "predict W (s_model s) (normalize_samples (int16_pairs ?blk)) = Inr (p, m')"
      and rest: "frame_scores W name m' (stream_frames ?bs') = Some scs'"
      and scs: "scs = get_score p name # scs'"
      by (auto split: sum.splits)
    let ?s' = "s\<lparr>s_model := m', max_score := max (max_score s) (get_score p name)\<rparr>"
    have sf: "score_frame W name s ?blk = (?s', None)"
      using pr by (simp add: score_frame_block [OF len])
    have loop: "score_loop W name s [Inr bs] =
        score_loop W name ?s' (if ?bs' = [] then [] else [Inr ?bs'])"
      using score_loop_block [OF len, of W name s ?bs' "[]"] sf by simp
    have ih: "snd (score_loop W name ?s' [Inr ?bs']) = None
        \<and> max_score (fst (score_loop W name ?s' [Inr ?bs'])) = Max (insert (max_score ?s') (set scs'))"
      using "1.IH" [OF False, of ?s' scs'] rest by simp
    have empty: "score_loop W name ?s' [Inr []] = score_loop W name ?s' []"
      by (simp add: score_loop_Inr chunk_bytes_def)
    have eq: "score_loop W name s [Inr bs] = score_loop W name ?s' [Inr ?bs']"
      using loop empty by (cases "?bs' = []") simp_all
    have mx: "Max (insert (max_score s) (set scs))
        = Max (insert (max (max_score s) (get_score p name)) (set scs'))"
      unfolding scs by (simp only: list.set Max_insert_insert [OF finite_set])
    have "snd (score_loop W name s [Inr bs]) = None"
      using eq ih by simp
    moreover have "max_score (fst (score_loop W name s [Inr bs]))
        = Max (insert (max_score s) (set scs))"
      unfolding mx using eq ih by simp
    ultimately show ?thesis by blast
  qed
qed

lemma score_frame_mono: "max_score s \<le> max_score (fst (score_frame W name s raw))"
  by (auto simp: score_frame_def Let_def split: sum.splits)

lemma score_loop_mono: "max_score s \<le> max_score (fst (score_loop W name s inp))"
proof (induction s inp rule: stdin_induct)
  case (Full s seg rest)
  obtain s' r where fr: "score_frame W name s (take chunk_bytes seg) = (s', r)"
    by (cases "score_frame W name s (take chunk_bytes seg)")
  with score_frame_mono [of s W name "take chunk_bytes seg"]
  have le: "max_score s \<le> max_score s'" by simp
  show ?case
  proof (cases r)
    case None
    with fr Full(1) Full(2) [of s'] le show ?thesis
      by (simp add: score_loop_Inr)
  next
    case (Some e)
    with fr Full(1) le show ?thesis by (simp add: score_loop_Inr)
  qed
qed (simp_all add: score_loop_Inr)

lemma score_main_stream:
  assumes "model_path_of argv = Some path"
    and "load_model W path = Inr (name # ks, m)"
    and "frame_scores W name m (stream_frames bs) = Some scs"
    and "\<not> stdout_broken W 0"
  shows "score_main W argv [Inr bs] =
           \<lparr>stdout = [MAX_line (Max (insert 0 (set scs)))], stderr = [], status = Exit 0\<rparr>"
proof -
  from score_loop_stream [of W name "score_init m" bs scs] assms(3)
  have "snd (score_loop W name (score_init m) [Inr bs]) = None"
    and "max_score (fst (score_loop W name (score_init m) [Inr bs])) = Max (insert 0 (set scs))"
    by (simp_all add: score_init_def)
  then obtain s where "score_loop W name (score_init m) [Inr bs] = (s, None)"
    and "max_score s = Max (insert 0 (set scs))"
    by (cases "score_loop W name (score_init m) [Inr bs]") auto
  with assms show ?thesis
    by (simp add: score_main_def print_stdout_def)
qed

lemma varied_scores:
  "frame_scores varied_env ''hey_jeeves'' 0 (stream_frames (silence @ silence @ silence @ [1, 2, 3]))
     = Some [0.2, 0.9, 0.4]"
proof -
  have "stream_frames (silence @ silence @ silence @ [1, 2, 3]) = [silence, silence, silence]"
    by (simp add: stream_frames_block [OF length_silence] stream_frames_short chunk_bytes_def)
  then show ?thesis
    by (simp add: varied_env_def varied_score_def get_score_def)
qed

text \<open>
  C2. In scoring mode, for a model that loads and a stream on which the scorer never
  raises, with scores that are not negative (confidences lie in \<open>[0, 1]\<close>), the one line
  printed is \<^verbatim>\<open>MAX\<close> with the maximum of the scores of the scored frames, or with 0
  when no frame was scored. The running maximum starts at 0, and neither a frame nor any
  part of a run makes it smaller.
\<close>

theorem running_maximum:
  assumes "model_path_of argv = Some path"
    and "load_model W path = Inr (name # ks, m)"
    and "frame_scores W name m (stream_frames bs) = Some scs"
    and "\<forall>x\<in>set scs. 0 \<le> x"
    and "\<not> stdout_broken W 0"
  shows "score_main W argv [Inr bs] =
           \<lparr>stdout = [MAX_line (if scs = [] then 0 else Max (set scs))], stderr = [],
            status = Exit 0\<rparr>
         \<and> max_score (score_init m) = 0
         \<and> max_score s \<le> max_score (fst (score_frame W name s raw))
         \<and> max_score s \<le> max_score (fst (score_loop W name s inp))"
proof -
  have "Max (insert 0 (set scs)) = (if scs = [] then 0 else Max (set scs))"
  proof (cases "scs = []")
    case True
    then show ?thesis by simp
  next
    case False
    then have "0 \<le> Max (set scs)"
      using assms(4) by (metis List.finite_set Max_in set_empty)
    with False show ?thesis by (simp add: max_def)
  qed
  with score_main_stream [OF assms(1,2,3,5)] score_frame_mono [of s W name raw]
    score_loop_mono [of s W name inp]
  show ?thesis by (simp add: score_init_def)
qed

theorem running_maximum_witness:
  "score_main varied_env [''scripts/wake_score_stdin.py'', ''hey_jeeves.onnx'']
       [Inr (silence @ silence @ silence @ [1, 2, 3])] =
     \<lparr>stdout = [MAX_line 0.9], stderr = [], status = Exit 0\<rparr>"
proof -
  have h1: "model_path_of [''scripts/wake_score_stdin.py'', ''hey_jeeves.onnx''] = Some ''hey_jeeves.onnx''"
    by (simp add: model_path_of_def)
  have h2: "load_model varied_env ''hey_jeeves.onnx'' = Inr ([''hey_jeeves''], 0)"
    by (simp add: varied_env_def)
  have h4: "\<forall>x\<in>set [0.2, 0.9, 0.4 :: real]. 0 \<le> x" by simp
  have h5: "\<not> stdout_broken varied_env 0" by (simp add: varied_env_def)
  from running_maximum [OF h1 h2 varied_scores h4 h5]
  show ?thesis by simp
qed

end
